theory Spec2Isabelle
  imports Complex_Main "HOL-Library.Monad_Syntax" "HOL-Library.Log_Nat"
begin

unbundle bit_operations_syntax

section \<open>Numbers\<close>

text \<open>
  Python integers are unbounded and are modelled as \<^typ>\<open>int\<close>. A Python float
  (a voltage, a scale factor, a telemetry value) is a finite IEEE double and is modelled
  as the rational number it denotes; comparisons of floats are comparisons of these
  rationals. Where the source converts the result of float arithmetic to an integer, in
  the writes of \<^verbatim>\<open>set_voltage\<close>, the arithmetic is that of doubles: each operation
  is rounded by \<open>fl\<close> below. The telemetry values of \<^verbatim>\<open>read_telemetry\<close> and the
  voltages of the sweep are computed exactly; the results about them concern which branch
  is taken and which calls are made, and are stated for the exact arithmetic.
\<close>

type_synonym pyfloat = rat

text \<open>\<^verbatim>\<open>int(x)\<close> on a float truncates towards zero.\<close>

definition py_int :: "pyfloat \<Rightarrow> int" where
  "py_int x = (if 0 \<le> x then \<lfloor>x\<rfloor> else \<lceil>x\<rceil>)"

text \<open>\<^verbatim>\<open>round(x)\<close> rounds to the nearest integer, a tie going to the even one.\<close>

definition py_round :: "pyfloat \<Rightarrow> int" where
  "py_round x =
     (let f = \<lfloor>x\<rfloor>; d = x - of_int f
      in if d < 1 / 2 then f
         else if 1 / 2 < d then f + 1
         else if even f then f else f + 1)"

text \<open>
  Rounding to the nearest double, a tie going to the even significand. For \<open>x > 0\<close>,
  \<open>ilog2 x\<close> is the integer \<open>k\<close> with \<open>2 ^ k \<le> x < 2 ^ (k + 1)\<close>: the bit lengths
  of the numerator and the denominator give it up to one. \<open>fl x\<close> keeps 53 significant
  bits of \<open>x\<close>. It is also the double that Python reads from the decimal literal \<open>x\<close>.
  The exponent is not bounded in \<open>fl\<close>: a result of magnitude \<open>2 ^ 1024\<close> or more is
  the overflow of the doubles, and below \<open>2 ^ (- 1022)\<close> the result of \<open>fl\<close> and
  the double both truncate and round to the integer 0.
\<close>

definition ilog2 :: "rat \<Rightarrow> int" where
  "ilog2 x =
     (let k = bitlen (fst (quotient_of x)) - bitlen (snd (quotient_of x))
      in if 2 powi k \<le> x then k else k - 1)"

definition fl :: "rat \<Rightarrow> pyfloat" where
  "fl x =
     (if x = 0 then 0
      else (let e = ilog2 \<bar>x\<bar> - 52
            in of_int (py_round (x / 2 powi e)) * 2 powi e))"

text \<open>
  The double result of an arithmetic operation on doubles whose exact result is \<open>x\<close>;
  \<open>None\<close> when the result overflows to infinity, which is when the rounded result
  is \<open>2 ^ 1024\<close> or more in magnitude. \<^verbatim>\<open>a * b\<close>, \<^verbatim>\<open>a - b\<close> and
  \<^verbatim>\<open>a / b\<close> on floats do not raise on overflow; \<^verbatim>\<open>int()\<close> and \<^verbatim>\<open>round()\<close> of
  an infinite float raise OverflowError.
\<close>

definition dbl_round :: "rat \<Rightarrow> pyfloat option" where
  "dbl_round x = (let r = fl x in if r \<noteq> 0 \<and> 1024 \<le> ilog2 \<bar>r\<bar> then None else Some r)"

text \<open>\<^verbatim>\<open>a / b\<close> raises ZeroDivisionError when \<open>b\<close> is zero; \<open>None\<close> is the raise.\<close>

definition py_div :: "pyfloat \<Rightarrow> pyfloat \<Rightarrow> pyfloat option" where
  "py_div a b = (if b = 0 then None else Some (a / b))"

text \<open>\<^verbatim>\<open>d.get(key, default)\<close>, the key's value being \<open>None\<close> when the key is absent.\<close>

definition dict_get :: "'a option \<Rightarrow> 'a \<Rightarrow> 'a" where
  "dict_get v dflt = (case v of None \<Rightarrow> dflt | Some x \<Rightarrow> x)"

section \<open>Format codec (boardAbstraction.py, Iteration Four)\<close>

text \<open>
  \<^verbatim>\<open>
  def _decode_linear11(self, raw_word):
      exp = (raw_word >> 11) & 0x1F
      if exp > 15: exp -= 32
      mant = raw_word & 0x7FF
      if mant > 1023: mant -= 2048
      return mant * (2.0 ** exp)
  \<close>
\<close>

definition decode_linear11 :: "int \<Rightarrow> pyfloat" where
  "decode_linear11 raw_word =
     (let exp0 = (drop_bit 11 raw_word) AND 31;
          exp = (if exp0 > 15 then exp0 - 32 else exp0);
          mant0 = raw_word AND 2047;
          mant = (if mant0 > 1023 then mant0 - 2048 else mant0)
      in of_int mant * (2 powi exp))"

text \<open>\<^verbatim>\<open>def _decode_linear16(self, raw_word, fixed_exp=-12): return raw_word * (2.0 ** fixed_exp)\<close>\<close>

definition decode_linear16 :: "int \<Rightarrow> pyfloat" where
  "decode_linear16 raw_word = of_int raw_word * (2 powi (- 12))"

text \<open>
  The linear11 packing as the specification words it: a 5-bit two's-complement exponent
  in bits 11 to 15 and an 11-bit two's-complement mantissa in bits 0 to 10 of a 16-bit
  word. The source has no encoder; this definition is the packing that
  \<open>decode_linear11\<close> is compared with.
\<close>

definition linear11_pack :: "int \<Rightarrow> int \<Rightarrow> int" where
  "linear11_pack e m = push_bit 11 (e AND 31) OR (m AND 2047)"

section \<open>Rail configuration and controllers\<close>

text \<open>
  The configuration is the parsed JSON document. A register or address field is a
  hexadecimal string that the code converts with \<^verbatim>\<open>int(s, 16)\<close> at each use:
  \<open>Missing\<close> is an absent key (KeyError on \<^verbatim>\<open>d[key]\<close>), \<open>Malformed\<close> a value
  that the conversion rejects (ValueError or TypeError), \<open>Val n\<close> a value that converts
  to \<open>n\<close>. A numeric or string field read with \<^verbatim>\<open>.get\<close> is an option, \<open>None\<close>
  being the absent key. Fields that are present are taken to have the JSON type the code
  expects of them.
\<close>

datatype 'a field = Missing | Malformed | Val 'a

record limits_conf =
  lim_min :: "pyfloat option"
  lim_max :: "pyfloat option"
  lim_nominal :: "pyfloat option"

record format_conf =
  voltage_mode :: "string option"
  scale_factor :: "pyfloat option"
  current_mode :: "string option"
  current_scale_factor :: "pyfloat option"
  unit_div :: "pyfloat option"
  base_v :: "pyfloat option"
  step_v :: "pyfloat option"

record files_conf =
  voltage_div :: "pyfloat option"
  current_div :: "pyfloat option"
  power_div :: "pyfloat option"
  voltage_file :: "string option"
  current_file :: "string option"
  power_file :: "string option"

text \<open>
  \<open>address\<close> is \<^verbatim>\<open>conf['connection']['address']\<close> and the \<open>cmd_\<close> fields are the
  entries of \<^verbatim>\<open>conf['commands']\<close>; an absent section makes each of its entries
  \<open>Missing\<close>. \<open>limits\<close>, \<open>format\<close> and \<open>files\<close> are the sections of these names,
  \<open>None\<close> when the section is absent.
\<close>

record rail_conf =
  driver_type :: "string option"
  read_only :: "bool option"
  limits :: "limits_conf option"
  address :: "int field"
  cmd_read_voltage :: "int field"
  cmd_read_current :: "int field"
  cmd_set_voltage :: "int field"
  cmd_voltage_reg :: "int field"
  cmd_update_reg :: "int field"
  cmd_update_value :: "int field"
  format :: "format_conf option"
  files :: "files_conf option"

text \<open>
  The controller that \<^verbatim>\<open>_init_rail_controller\<close> builds: \<open>ctype\<close> is
  \<^verbatim>\<open>ctrl['type']\<close>, \<open>bus\<close> the open SMBus (its bus id) or \<open>None\<close>, \<open>path_root\<close> and
  \<open>path_microvolts\<close> the entries of \<^verbatim>\<open>ctrl['paths']\<close>. Iteration Three keeps the
  regulator's path in \<^verbatim>\<open>controller['regulator_path']\<close>, which is \<open>path_microvolts\<close>
  here.
\<close>

record controller =
  conf :: rail_conf
  ctype :: string
  bus :: "nat option"
  path_root :: "string option"
  path_microvolts :: "string option"

text \<open>\<^verbatim>\<open>'type': conf.get('driver_type', 'sysfs_monitor')\<close>\<close>

definition init_type :: "rail_conf \<Rightarrow> string" where
  "init_type cf = dict_get (driver_type cf) ''sysfs_monitor''"

record workload_job =
  target_rail :: "string option"
  nominal_voltage :: "pyfloat option"

record hal =
  rails :: "string \<rightharpoonup> controller"
  workloads :: "string \<rightharpoonup> workload_job"

section \<open>Hardware\<close>

text \<open>
  The bus and the filesystem are the environment. A write is recorded as an \<open>io_op\<close>
  in the order the code issues it, whether or not it succeeds: \<open>WriteWord bus addr cmd v\<close>
  is \<^verbatim>\<open>write_word_data(addr, cmd, v)\<close>, \<open>WriteByte\<close> is \<^verbatim>\<open>write_byte_data\<close>, and
  \<open>WriteFile path n\<close> opens \<open>path\<close> for writing and writes \<^verbatim>\<open>str(n)\<close>.
  \<open>write_fails\<close> tells which writes raise. \<open>read_word_data\<close> and \<open>read_float\<close>
  (open, read, \<^verbatim>\<open>float()\<close>) return \<open>None\<close> when they raise.
\<close>

datatype io_op =
    WriteWord nat int int int
  | WriteByte nat int int int
  | WriteFile string int

record hw =
  read_word_data :: "nat \<Rightarrow> int \<Rightarrow> int \<Rightarrow> int option"
  read_float :: "string \<Rightarrow> pyfloat option"
  write_fails :: "io_op \<Rightarrow> bool"

text \<open>\<^verbatim>\<open>os.path.join(a, b)\<close> on POSIX, for two components.\<close>

definition path_join :: "string \<Rightarrow> string \<Rightarrow> string" where
  "path_join a b =
     (if b \<noteq> [] \<and> hd b = CHR ''/'' then b
      else if a = [] \<or> last a = CHR ''/'' then a @ b
      else a @ ''/'' @ b)"

record sample =
  voltage_v :: pyfloat
  current_a :: pyfloat
  power_w :: pyfloat

section \<open>set\_voltage (boardAbstraction.py, Iteration Four)\<close>

text \<open>
  \<^verbatim>\<open>
  lim = c['conf'].get('limits', {})
  if not (lim.get('min', 0.0) <= voltage_v <= lim.get('max', 99.0)):
      print(...Safety Trip...)
      return False
  \<close>
\<close>

definition no_limits :: limits_conf where
  "no_limits = \<lparr>lim_min = None, lim_max = None, lim_nominal = None\<rparr>"

definition within_limits :: "rail_conf \<Rightarrow> pyfloat \<Rightarrow> bool" where
  "within_limits cf volts =
     (let lim = dict_get (limits cf) no_limits
      in dict_get (lim_min lim) 0 \<le> volts \<and> volts \<le> dict_get (lim_max lim) 99)"

text \<open>
  Each branch of the \<^verbatim>\<open>try\<close> block returns the boolean of \<^verbatim>\<open>set_voltage\<close> and
  the writes it issued. An exception raised in the block is caught by
  \<^verbatim>\<open>except Exception\<close>, which returns \<^verbatim>\<open>False\<close>: the writes issued before the
  raise stay in the list.

  PMBus branch. \<^verbatim>\<open>voltage_v * scale\<close> is the product of two doubles, rounded to a
  double; \<^verbatim>\<open>int()\<close> truncates it, and raises when it is infinite. In the \<^verbatim>\<open>else\<close>
  branch the source reads the local \<^verbatim>\<open>scale\<close>, which only the \<^verbatim>\<open>if\<close> branch
  assigns: the read raises UnboundLocalError.
  \<^verbatim>\<open>
  addr = int(c['conf']['connection']['address'], 16)
  cmd = int(c['conf']['commands']['set_voltage'], 16)
  fmt = c['conf']['format']
  if fmt.get('voltage_mode') == 'linear16_fixed':
      scale = fmt.get('scale_factor')
      raw_val = int(voltage_v * scale)
  else:
      raw_val = int(voltage_v * scale)
  c['bus'].write_word_data(addr, cmd, raw_val)
  return True
  \<close>
\<close>

definition pmbus_write :: "hw \<Rightarrow> controller \<Rightarrow> nat \<Rightarrow> pyfloat \<Rightarrow> bool \<times> io_op list" where
  "pmbus_write h c b volts =
     (case address (conf c) of
        Val addr \<Rightarrow>
          (case cmd_set_voltage (conf c) of
             Val cmd \<Rightarrow>
               (case format (conf c) of
                  Some fmt \<Rightarrow>
                    if voltage_mode fmt = Some ''linear16_fixed'' then
                      (case scale_factor fmt of
                         Some scale \<Rightarrow>
                           (case dbl_round (volts * scale) of
                              Some r \<Rightarrow>
                                (let raw_val = py_int r;
                                     w = WriteWord b addr cmd raw_val
                                 in (\<not> write_fails h w, [w]))
                            | None \<Rightarrow> (False, []))
                       | None \<Rightarrow> (False, []))
                    else (False, [])
                | None \<Rightarrow> (False, []))
           | _ \<Rightarrow> (False, []))
      | _ \<Rightarrow> (False, []))"

text \<open>
  \<^verbatim>\<open>
  unit_div = c['conf']['format'].get('unit_div', 1000000.0)
  raw_val = int(voltage_v * unit_div)
  with open(c['paths']['microvolts'], 'w') as f:
      f.write(str(raw_val))
  return True
  \<close>
\<close>

definition regulator_write :: "hw \<Rightarrow> controller \<Rightarrow> string \<Rightarrow> pyfloat \<Rightarrow> bool \<times> io_op list" where
  "regulator_write h c path volts =
     (case format (conf c) of
        Some fmt \<Rightarrow>
          (case dbl_round (volts * dict_get (unit_div fmt) 1000000) of
             Some r \<Rightarrow>
               (let raw_val = py_int r;
                    w = WriteFile path raw_val
                in (\<not> write_fails h w, [w]))
           | None \<Rightarrow> (False, []))
      | None \<Rightarrow> (False, []))"

text \<open>
  The second, committing write of the raw I2C branch:
  \<^verbatim>\<open>
  c['bus'].write_byte_data(addr, reg, vid)
  if 'update_reg' in c['conf']['commands']:
      up_reg = int(c['conf']['commands']['update_reg'], 16)
      up_val_str = c['conf']['commands'].get('update_value', '0x01')
      up_val = int(up_val_str, 16)
      c['bus'].write_byte_data(addr, up_reg, up_val)
  return True
  \<close>
\<close>

definition vid_write :: "hw \<Rightarrow> controller \<Rightarrow> nat \<Rightarrow> int \<Rightarrow> int \<Rightarrow> int \<Rightarrow> bool \<times> io_op list" where
  "vid_write h c b addr reg vid =
     (let w1 = WriteByte b addr reg vid
      in if write_fails h w1 then (False, [w1])
         else
           (case cmd_update_reg (conf c) of
              Missing \<Rightarrow> (True, [w1])
            | Malformed \<Rightarrow> (False, [w1])
            | Val up_reg \<Rightarrow>
                (case cmd_update_value (conf c) of
                   Malformed \<Rightarrow> (False, [w1])
                 | Missing \<Rightarrow>
                     (let w2 = WriteByte b addr up_reg 1
                      in (\<not> write_fails h w2, [w1, w2]))
                 | Val up_val \<Rightarrow>
                     (let w2 = WriteByte b addr up_reg up_val
                      in (\<not> write_fails h w2, [w1, w2])))))"

text \<open>
  \<^verbatim>\<open>
  addr = int(c['conf']['connection']['address'], 16)
  reg = int(c['conf']['commands']['voltage_reg'], 16)
  fmt = c['conf']['format']
  base = fmt.get('base_v')
  step = fmt.get('step_v')
  if base is None or step is None:
      return False
  if voltage_v < base: vid = 0
  else: vid = int(round((voltage_v - base) / step))
  \<close>
  The difference and the quotient are each rounded to a double. A step of zero raises
  ZeroDivisionError; an infinite difference or quotient ends in an exception as well, of
  the division or of \<^verbatim>\<open>round()\<close>.
\<close>

definition raw_i2c_write :: "hw \<Rightarrow> controller \<Rightarrow> nat \<Rightarrow> pyfloat \<Rightarrow> bool \<times> io_op list" where
  "raw_i2c_write h c b volts =
     (case address (conf c) of
        Val addr \<Rightarrow>
          (case cmd_voltage_reg (conf c) of
             Val reg \<Rightarrow>
               (case format (conf c) of
                  Some fmt \<Rightarrow>
                    (case base_v fmt of
                       None \<Rightarrow> (False, [])
                     | Some base \<Rightarrow>
                         (case step_v fmt of
                            None \<Rightarrow> (False, [])
                          | Some step \<Rightarrow>
                              if volts < base then vid_write h c b addr reg 0
                              else
                                (case dbl_round (volts - base) of
                                   None \<Rightarrow> (False, [])
                                 | Some d \<Rightarrow>
                                     if step = 0 then (False, [])
                                     else
                                       (case dbl_round (d / step) of
                                          None \<Rightarrow> (False, [])
                                        | Some q \<Rightarrow>
                                            vid_write h c b addr reg (py_round q)))))
                | None \<Rightarrow> (False, []))
           | _ \<Rightarrow> (False, []))
      | _ \<Rightarrow> (False, []))"

text \<open>
  \<^verbatim>\<open>
  def set_voltage(self, rail_name, voltage_v):
      if rail_name not in self.rails: return False
      c = self.rails[rail_name]
      lim = ...                       # the bounds check above
      try:
          if c['type'] == 'pmbus' and c['bus']: ...
          elif c['type'] == 'sysfs_regulator' and 'microvolts' in c['paths']: ...
          elif c['type'] == 'raw_i2c' and c['bus']: ...
      except Exception as e:
          return False
      return False
  \<close>
\<close>

definition set_voltage :: "hw \<Rightarrow> hal \<Rightarrow> string \<Rightarrow> pyfloat \<Rightarrow> bool \<times> io_op list" where
  "set_voltage h hl rail_name volts =
     (case rails hl rail_name of
        None \<Rightarrow> (False, [])
      | Some c \<Rightarrow>
          if \<not> within_limits (conf c) volts then (False, [])
          else if ctype c = ''pmbus'' \<and> bus c \<noteq> None then
            (case bus c of Some b \<Rightarrow> pmbus_write h c b volts | None \<Rightarrow> (False, []))
          else if ctype c = ''sysfs_regulator'' \<and> path_microvolts c \<noteq> None then
            (case path_microvolts c of
               Some path \<Rightarrow> regulator_write h c path volts
             | None \<Rightarrow> (False, []))
          else if ctype c = ''raw_i2c'' \<and> bus c \<noteq> None then
            (case bus c of Some b \<Rightarrow> raw_i2c_write h c b volts | None \<Rightarrow> (False, []))
          else (False, []))"

section \<open>set\_voltage (boardAbstraction.py, Iteration Three)\<close>

text \<open>
  \<^verbatim>\<open>
  addr = int(c['conf']['connection']['address'], 16)
  cmd = int(c['conf']['commands']['set_voltage'], 16)
  scale = c['conf']['format']['scale_factor']
  raw_val = int(voltage_v * scale)
  c['bus'].write_word_data(addr, cmd, raw_val)
  return True
  \<close>
\<close>

definition bus_write_three :: "hw \<Rightarrow> controller \<Rightarrow> nat \<Rightarrow> pyfloat \<Rightarrow> bool \<times> io_op list" where
  "bus_write_three h c b volts =
     (case address (conf c) of
        Val addr \<Rightarrow>
          (case cmd_set_voltage (conf c) of
             Val cmd \<Rightarrow>
               (case format (conf c) of
                  Some fmt \<Rightarrow>
                    (case scale_factor fmt of
                       Some scale \<Rightarrow>
                         (case dbl_round (volts * scale) of
                            Some r \<Rightarrow>
                              (let raw_val = py_int r;
                                   w = WriteWord b addr cmd raw_val
                               in (\<not> write_fails h w, [w]))
                          | None \<Rightarrow> (False, []))
                     | None \<Rightarrow> (False, []))
                | None \<Rightarrow> (False, []))
           | _ \<Rightarrow> (False, []))
      | _ \<Rightarrow> (False, []))"

text \<open>
  \<^verbatim>\<open>
  microvolts = int(voltage_v * 1000000)
  with open(c['regulator_path'], 'w') as f:
      f.write(str(microvolts))
  return True
  \<close>
\<close>

definition regulator_write_three :: "hw \<Rightarrow> string \<Rightarrow> pyfloat \<Rightarrow> bool \<times> io_op list" where
  "regulator_write_three h path volts =
     (case dbl_round (volts * 1000000) of
        Some r \<Rightarrow>
          (let w = WriteFile path (py_int r)
           in (\<not> write_fails h w, [w]))
      | None \<Rightarrow> (False, []))"

text \<open>
  \<^verbatim>\<open>
  def set_voltage(self, rail_name, voltage_v):
      if rail_name not in self.rails:
          return False
      c = self.rails[rail_name]
      if c['conf'].get('read_only', True):
          return False
      limits = c['conf'].get('limits', {})
      min_v = limits.get('min', 0.0)
      max_v = limits.get('max', 99.0)
      if not (min_v <= voltage_v <= max_v):
          return False
      try:
          if c['type'] in ['pmbus', 'raw_i2c'] and c['bus']: ...
          elif c['type'] == 'sysfs_regulator' and c['regulator_path']: ...
          else:
              return False
      except Exception as e:
          return False
  \<close>
  A path is true in a condition when it is not \<^verbatim>\<open>None\<close> and not the empty string.
\<close>

definition set_voltage_three :: "hw \<Rightarrow> hal \<Rightarrow> string \<Rightarrow> pyfloat \<Rightarrow> bool \<times> io_op list" where
  "set_voltage_three h hl rail_name volts =
     (case rails hl rail_name of
        None \<Rightarrow> (False, [])
      | Some c \<Rightarrow>
          if dict_get (read_only (conf c)) True then (False, [])
          else if \<not> within_limits (conf c) volts then (False, [])
          else if (ctype c = ''pmbus'' \<or> ctype c = ''raw_i2c'') \<and> bus c \<noteq> None then
            (case bus c of Some b \<Rightarrow> bus_write_three h c b volts | None \<Rightarrow> (False, []))
          else
            (case path_microvolts c of
               Some path \<Rightarrow>
                 if ctype c = ''sysfs_regulator'' \<and> path \<noteq> [] then
                   regulator_write_three h path volts
                 else (False, [])
             | None \<Rightarrow> (False, [])))"

section \<open>read\_telemetry (boardAbstraction.py, Iteration Four)\<close>

text \<open>
  \<^verbatim>\<open>
  if fmt.get('voltage_mode') == 'linear16_fixed':
       scale = fmt.get('scale_factor')
       v = raw_v / scale
  else:
       v = self._decode_linear16(raw_v)
  \<close>
\<close>

definition decode_voltage :: "format_conf \<Rightarrow> int \<Rightarrow> pyfloat option" where
  "decode_voltage fmt raw_v =
     (if voltage_mode fmt = Some ''linear16_fixed'' then
        (case scale_factor fmt of
           None \<Rightarrow> None
         | Some scale \<Rightarrow> py_div (of_int raw_v) scale)
      else Some (decode_linear16 raw_v))"

text \<open>
  \<^verbatim>\<open>
  if fmt.get('current_mode') == 'linear11':
      i = self._decode_linear11(raw_i)
  elif fmt.get('current_mode') == 'linear16_fixed':
      scale = fmt.get('current_scale_factor')
      i = raw_i / scale
  else:
      i = 0.0
  \<close>
\<close>

definition decode_current :: "format_conf \<Rightarrow> int \<Rightarrow> pyfloat option" where
  "decode_current fmt raw_i =
     (if current_mode fmt = Some ''linear11'' then Some (decode_linear11 raw_i)
      else if current_mode fmt = Some ''linear16_fixed'' then
        (case current_scale_factor fmt of
           None \<Rightarrow> None
         | Some scale \<Rightarrow> py_div (of_int raw_i) scale)
      else Some 0)"

text \<open>
  Each branch returns the sample, or \<open>None\<close> where the source raises inside the
  \<^verbatim>\<open>try\<close> block (\<^verbatim>\<open>except Exception: return None\<close>).
\<close>

definition pmbus_read :: "hw \<Rightarrow> controller \<Rightarrow> nat \<Rightarrow> sample option" where
  "pmbus_read h c b =
     (case address (conf c) of
        Val addr \<Rightarrow>
          (case format (conf c) of
             Some fmt \<Rightarrow>
               (case cmd_read_voltage (conf c) of
                  Val rv \<Rightarrow>
                    do {
                      raw_v \<leftarrow> read_word_data h b addr rv;
                      v \<leftarrow> decode_voltage fmt raw_v;
                      i \<leftarrow> (case cmd_read_current (conf c) of
                             Missing \<Rightarrow> Some 0
                           | Malformed \<Rightarrow> None
                           | Val rc \<Rightarrow>
                               do {
                                 raw_i \<leftarrow> read_word_data h b addr rc;
                                 decode_current fmt raw_i
                               });
                      Some \<lparr>voltage_v = v, current_a = i, power_w = v * i\<rparr>
                    }
                | _ \<Rightarrow> None)
           | None \<Rightarrow> None)
      | _ \<Rightarrow> None)"

text \<open>
  \<^verbatim>\<open>
  f_map = c['conf']['files']
  root = c['paths']['root']
  v_div = f_map.get('voltage_div', 1.0)
  c_div = f_map.get('current_div', 1.0)
  p_div = f_map.get('power_div', 1.0)
  if 'voltage' in f_map:
      with open(os.path.join(root, f_map['voltage']), 'r') as f:
          v = float(f.read()) / v_div
  if 'current' in f_map: ...
  if 'power' in f_map: ...
  else:
      p = v * i
  \<close>
\<close>

definition read_scaled :: "hw \<Rightarrow> string \<Rightarrow> pyfloat \<Rightarrow> pyfloat option" where
  "read_scaled h path d = do { x \<leftarrow> read_float h path; py_div x d }"

definition monitor_read :: "hw \<Rightarrow> controller \<Rightarrow> string \<Rightarrow> sample option" where
  "monitor_read h c root_dir =
     (case files (conf c) of
        None \<Rightarrow> None
      | Some f_map \<Rightarrow>
          do {
            v \<leftarrow> (case voltage_file f_map of
                   None \<Rightarrow> Some 0
                 | Some n \<Rightarrow> read_scaled h (path_join root_dir n) (dict_get (voltage_div f_map) 1));
            i \<leftarrow> (case current_file f_map of
                   None \<Rightarrow> Some 0
                 | Some n \<Rightarrow> read_scaled h (path_join root_dir n) (dict_get (current_div f_map) 1));
            p \<leftarrow> (case power_file f_map of
                   None \<Rightarrow> Some (v * i)
                 | Some n \<Rightarrow> read_scaled h (path_join root_dir n) (dict_get (power_div f_map) 1));
            Some \<lparr>voltage_v = v, current_a = i, power_w = p\<rparr>
          })"

text \<open>
  \<^verbatim>\<open>
  unit_div = c['conf']['format'].get('unit_div', 1000000.0)
  with open(c['paths']['microvolts'], 'r') as f:
      v = float(f.read()) / unit_div
  i = 0.0
  p = 0.0
  \<close>
\<close>

definition regulator_read :: "hw \<Rightarrow> controller \<Rightarrow> string \<Rightarrow> sample option" where
  "regulator_read h c path =
     (case format (conf c) of
        None \<Rightarrow> None
      | Some fmt \<Rightarrow>
          do {
            v \<leftarrow> read_scaled h path (dict_get (unit_div fmt) 1000000);
            Some \<lparr>voltage_v = v, current_a = 0, power_w = 0\<rparr>
          })"

text \<open>
  \<^verbatim>\<open>
  def read_telemetry(self, rail_name):
      if rail_name not in self.rails: return None
      c = self.rails[rail_name]
      v, i, p = 0.0, 0.0, 0.0
      try:
          if c['type'] == 'pmbus' and c['bus']: ...
          elif c['type'] == 'sysfs_monitor' and 'root' in c['paths']: ...
          elif c['type'] == 'sysfs_regulator' and 'microvolts' in c['paths']: ...
          return {"voltage_v": v, "current_a": i, "power_w": p}
      except Exception as e:
          return None
  \<close>
  The \<^verbatim>\<open>return\<close> of the dictionary follows the whole \<^verbatim>\<open>if\<close> chain: when no branch
  is taken, the chain falls through to it with the initial values.
\<close>

definition zero_sample :: sample where
  "zero_sample = \<lparr>voltage_v = 0, current_a = 0, power_w = 0\<rparr>"

definition read_telemetry :: "hw \<Rightarrow> hal \<Rightarrow> string \<Rightarrow> sample option" where
  "read_telemetry h hl rail_name =
     (case rails hl rail_name of
        None \<Rightarrow> None
      | Some c \<Rightarrow>
          if ctype c = ''pmbus'' \<and> bus c \<noteq> None then
            (case bus c of Some b \<Rightarrow> pmbus_read h c b | None \<Rightarrow> None)
          else if ctype c = ''sysfs_monitor'' \<and> path_root c \<noteq> None then
            (case path_root c of Some root_dir \<Rightarrow> monitor_read h c root_dir | None \<Rightarrow> None)
          else if ctype c = ''sysfs_regulator'' \<and> path_microvolts c \<noteq> None then
            (case path_microvolts c of Some path \<Rightarrow> regulator_read h c path | None \<Rightarrow> None)
          else Some zero_sample)"

text \<open>
  The runtime handle of a rail is absent when the bus of a \<^verbatim>\<open>pmbus\<close> or
  \<^verbatim>\<open>raw_i2c\<close> rail was not opened, or the path of a \<^verbatim>\<open>sysfs_monitor\<close> or
  \<^verbatim>\<open>sysfs_regulator\<close> rail was not resolved.
\<close>

definition handle_absent :: "controller \<Rightarrow> bool" where
  "handle_absent c =
     (if ctype c = ''pmbus'' \<or> ctype c = ''raw_i2c'' then bus c = None
      else if ctype c = ''sysfs_monitor'' then path_root c = None
      else if ctype c = ''sysfs_regulator'' then path_microvolts c = None
      else False)"

section \<open>The sweep (start.py, Iteration Five)\<close>

text \<open>
  What the world does in one iteration of the step loop, as the loop sees it:
  \<^item> \<open>SetFails\<close>: \<^verbatim>\<open>self.hal.set_voltage(rail, current_v)\<close> returns \<^verbatim>\<open>False\<close>;
  \<^item> \<open>SettleInterrupt\<close>: the voltage is set and KeyboardInterrupt arrives in
    \<^verbatim>\<open>time.sleep(1.0)\<close>, before the inner \<^verbatim>\<open>try\<close>;
  \<^item> \<open>Exited rc acc dur\<close>: the workload process returns with exit code \<open>rc\<close> after
    \<open>dur\<close> seconds, and \<open>acc\<close> is the number that the pattern captures from its output
    (\<open>None\<close> when the pattern does not match);
  \<^item> \<open>RunRaises d\<close>: an \<^verbatim>\<open>Exception\<close> is raised in the inner \<^verbatim>\<open>try\<close> block, by
    \<^verbatim>\<open>subprocess.run\<close> (\<open>d = None\<close>) or after \<^verbatim>\<open>duration\<close> was assigned \<open>x\<close>, by
    the pattern search or the conversion of its match (\<open>d = Some x\<close>);
  \<^item> \<open>RunInterrupt d\<close>: the same for KeyboardInterrupt.
  The event of the iteration with step number \<open>n\<close> is \<open>env n\<close>. The sampler thread
  and the per-step log file are left out; the summary file is the list of its rows, and
  writing a row is taken to succeed.
\<close>

datatype step_event =
    SetFails
  | SettleInterrupt
  | Exited int "pyfloat option" pyfloat
  | RunRaises "pyfloat option"
  | RunInterrupt "pyfloat option"

record summary_row =
  row_voltage :: pyfloat
  row_accuracy :: pyfloat
  row_status :: string
  row_duration :: pyfloat

text \<open>
  The local variables of \<^verbatim>\<open>run_workload_sweep\<close> that the loop changes. \<^verbatim>\<open>status\<close>
  and \<^verbatim>\<open>duration\<close> are assigned inside the inner \<^verbatim>\<open>try\<close> only: \<open>None\<close> is the
  name not bound yet. \<open>set_calls\<close> lists the voltages passed to
  \<^verbatim>\<open>self.hal.set_voltage\<close>, in call order.
\<close>

record sweep_state =
  current_v :: pyfloat
  step_count :: nat
  status :: "string option"
  duration :: "pyfloat option"
  set_calls :: "pyfloat list"
  summary :: "summary_row list"

record sweep_params =
  nominal_v :: pyfloat
  min_v :: pyfloat
  step_size_v :: pyfloat

text \<open>
  \<^verbatim>\<open>
  fine_threshold = min_v + 0.02
  fine_step = 0.001
  coarse_step = step_size_v
  ...
  if current_v <= fine_threshold:
      current_step = fine_step
  else:
      current_step = coarse_step
  current_v -= current_step
  \<close>
\<close>

definition fine_threshold :: "sweep_params \<Rightarrow> pyfloat" where
  "fine_threshold p = min_v p + 2 / 100"

definition fine_step :: pyfloat where
  "fine_step = 1 / 1000"

definition current_step :: "sweep_params \<Rightarrow> pyfloat \<Rightarrow> pyfloat" where
  "current_step p v = (if v \<le> fine_threshold p then fine_step else step_size_v p)"

definition next_v :: "sweep_params \<Rightarrow> pyfloat \<Rightarrow> pyfloat" where
  "next_v p v = v - current_step p v"

text \<open>
  The \<^verbatim>\<open>finally\<close> block of the inner \<^verbatim>\<open>try\<close>:
  \<^verbatim>\<open>
  self._save_csv(workload_name, current_v, self.log_data)
  self.update_master_summary(workload_name, current_v, accuracy_found, status, duration)
  \<close>
  Reading \<^verbatim>\<open>status\<close> or \<^verbatim>\<open>duration\<close> while it is not bound raises
  UnboundLocalError: the result \<open>None\<close>.
\<close>

definition finish_step :: "sweep_state \<Rightarrow> pyfloat \<Rightarrow> sweep_state option" where
  "finish_step s accuracy_found =
     (case status s of
        None \<Rightarrow> None
      | Some st \<Rightarrow>
          (case duration s of
             None \<Rightarrow> None
           | Some d \<Rightarrow>
               Some (s\<lparr>summary := summary s @
                 [\<lparr>row_voltage = current_v s, row_accuracy = accuracy_found,
                   row_status = st, row_duration = d\<rparr>]\<rparr>)))"

text \<open>How the step loop is left.\<close>

datatype loop_exit =
    Exhausted
  | WriteAbort
  | RunAbort
  | CapHalt
  | Interrupted
  | Unbound

text \<open>
  The exit code classification of the inner \<^verbatim>\<open>try\<close>:
  \<^verbatim>\<open>
  if result.returncode == 0 or result.returncode == -6:
      status = "SUCCESS"
      if result.returncode == -6:
          status = "SUCCESS (GUI Ignored)"
      print(...)
  else:
      print(f"Result: CRASH (Exit Code {result.returncode})")
  \<close>
\<close>

definition classify :: "int \<Rightarrow> sweep_state \<Rightarrow> sweep_state" where
  "classify rc s =
     (if rc = 0 \<or> rc = - 6 then
        s\<lparr>status := Some (if rc = - 6 then ''SUCCESS (GUI Ignored)'' else ''SUCCESS'')\<rparr>
      else s)"

text \<open>
  The body of the loop up to \<^verbatim>\<open>step_count += 1\<close>. The result is how the body leaves
  the loop (\<open>None\<close> when it does not) and the state.
  \<^verbatim>\<open>
  accuracy_found = 0.0
  if not self.hal.set_voltage(rail, current_v):
      break
  time.sleep(1.0)
  ...
  try:
      start_t = time.time()
      result = subprocess.run(...)
      duration = time.time() - start_t
      ...
      match = re.search(custom_regex, full_output)
      if match: accuracy_found = float(match.group(1))
      else: accuracy_found = 0.0
      ...                              # the classification above
  except Exception as e:
      break
  finally:
      ...                              # the finally block above
  ...                                  # the step policy above
  current_v -= current_step
  step_count += 1
  \<close>
  An exception raised by the \<^verbatim>\<open>finally\<close> block replaces the \<^verbatim>\<open>break\<close> or the
  exception in flight.
\<close>

definition set_duration :: "pyfloat option \<Rightarrow> sweep_state \<Rightarrow> sweep_state" where
  "set_duration d s = (case d of None \<Rightarrow> s | Some x \<Rightarrow> s\<lparr>duration := Some x\<rparr>)"

definition sweep_step ::
  "(nat \<Rightarrow> step_event) \<Rightarrow> sweep_params \<Rightarrow> sweep_state \<Rightarrow> loop_exit option \<times> sweep_state" where
  "sweep_step env p s =
     (let s1 = s\<lparr>set_calls := set_calls s @ [current_v s]\<rparr>
      in case env (step_count s) of
           SetFails \<Rightarrow> (Some WriteAbort, s1)
         | SettleInterrupt \<Rightarrow> (Some Interrupted, s1)
         | RunRaises d \<Rightarrow>
             (let s2 = set_duration d s1
              in case finish_step s2 0 of
                   None \<Rightarrow> (Some Unbound, s2)
                 | Some s3 \<Rightarrow> (Some RunAbort, s3))
         | RunInterrupt d \<Rightarrow>
             (let s2 = set_duration d s1
              in case finish_step s2 0 of
                   None \<Rightarrow> (Some Unbound, s2)
                 | Some s3 \<Rightarrow> (Some Interrupted, s3))
         | Exited rc acc dur \<Rightarrow>
             (let s2 = classify rc (s1\<lparr>duration := Some dur\<rparr>)
              in case finish_step s2 (dict_get acc 0) of
                   None \<Rightarrow> (Some Unbound, s2)
                 | Some s3 \<Rightarrow>
                     (None, s3\<lparr>current_v := next_v p (current_v s3),
                                step_count := step_count s3 + 1\<rparr>)))"

text \<open>
  \<^verbatim>\<open>
  while current_v >= (min_v - 0.0001):
      ...                              # the body above
      if step_count > 500:
          print("Safety Limit Reached (500 steps). Stopping.")
          break
  \<close>
\<close>

function sweep_loop ::
  "(nat \<Rightarrow> step_event) \<Rightarrow> sweep_params \<Rightarrow> sweep_state \<Rightarrow> loop_exit \<times> sweep_state" where
  "sweep_loop env p s =
     (if current_v s \<ge> min_v p - 1 / 10000 then
        (case sweep_step env p s of
           (Some e, s') \<Rightarrow> (e, s')
         | (None, s') \<Rightarrow>
             if step_count s' > 500 then (CapHalt, s') else sweep_loop env p s')
      else (Exhausted, s))"
  by pat_completeness auto
termination
proof (relation "measure (\<lambda>(env, p, s). 501 - step_count s)")
  show "wf (measure (\<lambda>(env, p, s). 501 - step_count s))"
    by simp
next
  fix env :: "nat \<Rightarrow> step_event" and p :: sweep_params and s x y :: sweep_state
    and e :: "loop_exit option"
  assume "(e, y) = sweep_step env p s" and "e = None" and "\<not> 500 < step_count y"
  then have "step_count y = Suc (step_count s)" and "step_count y \<le> 500"
    by (auto simp: sweep_step_def Let_def finish_step_def classify_def set_duration_def
        split: step_event.splits option.splits if_splits)
  then show "((env, p, y), (env, p, s)) \<in> measure (\<lambda>(env, p, s). 501 - step_count s)"
    by simp
qed

declare sweep_loop.simps [simp del]

text \<open>
  The \<^verbatim>\<open>try\<close> statement around the loop:
  \<^verbatim>\<open>
  current_v = nominal_v
  step_count = 0
  try:
      while ...                        # the loop above
  except KeyboardInterrupt:
      print("\nTest Interrupted.")
  finally:
      print(...)
      self.hal.set_voltage(rail, nominal_v)
  \<close>
  \<open>hal_calls\<close> lists the voltages of all calls of \<^verbatim>\<open>self.hal.set_voltage\<close>, in call
  order. Only the exit \<open>Unbound\<close> leaves \<^verbatim>\<open>run_workload_sweep\<close> with an exception:
  KeyboardInterrupt is caught, every other exit is a \<^verbatim>\<open>break\<close> or the end of the loop.
\<close>

datatype sweep_outcome = NotStarted | SetupError | Swept loop_exit

record sweep_run =
  outcome :: sweep_outcome
  hal_calls :: "pyfloat list"
  rows :: "summary_row list"

definition start_state :: "sweep_params \<Rightarrow> sweep_state" where
  "start_state p =
     \<lparr>current_v = nominal_v p, step_count = 0, status = None, duration = None,
      set_calls = [], summary = []\<rparr>"

definition sweep_and_reset :: "(nat \<Rightarrow> step_event) \<Rightarrow> sweep_params \<Rightarrow> sweep_run" where
  "sweep_and_reset env p =
     (case sweep_loop env p (start_state p) of
        (e, s) \<Rightarrow>
          \<lparr>outcome = Swept e, hal_calls = set_calls s @ [nominal_v p], rows = summary s\<rparr>)"


text \<open>
  The statements before the \<^verbatim>\<open>try\<close>. A KeyError in them (\<open>SetupError\<close>) leaves the
  function before the loop and outside the \<^verbatim>\<open>try\<close>. The job's command line and the
  warm-up run of the workload are left out: the job is taken to declare its executable,
  arguments and directory, and the warm-up run to return.
  \<^verbatim>\<open>
  if workload_name not in self.hal.workloads:
      return
  job = self.hal.workloads[workload_name]
  rail = job.get('target_rail', 'VCCINT')
  if 'nominal_voltage' in job:
      nominal_v = job['nominal_voltage']
  elif rail in self.hal.rails:
      nominal_v = self.hal.rails[rail]['conf']['limits'].get('nominal', 0.85)
  else:
      return
  ...
  min_v = self.hal.rails[rail]['conf']['limits'].get('min', 0.55)
  \<close>
\<close>

definition not_run :: "sweep_outcome \<Rightarrow> sweep_run" where
  "not_run out = \<lparr>outcome = out, hal_calls = [], rows = []\<rparr>"

definition find_nominal :: "hal \<Rightarrow> workload_job \<Rightarrow> string \<Rightarrow> sweep_outcome + pyfloat" where
  "find_nominal hl job rail =
     (case nominal_voltage job of
        Some n \<Rightarrow> Inr n
      | None \<Rightarrow>
          (case rails hl rail of
             Some c \<Rightarrow>
               (case limits (conf c) of
                  Some lm \<Rightarrow> Inr (dict_get (lim_nominal lm) (85 / 100))
                | None \<Rightarrow> Inl SetupError)
           | None \<Rightarrow> Inl NotStarted))"

definition find_min :: "hal \<Rightarrow> string \<Rightarrow> pyfloat option" where
  "find_min hl rail =
     (case rails hl rail of
        Some c \<Rightarrow>
          (case limits (conf c) of
             Some lm \<Rightarrow> Some (dict_get (lim_min lm) (55 / 100))
           | None \<Rightarrow> None)
      | None \<Rightarrow> None)"

definition sweep_setup :: "hal \<Rightarrow> string \<Rightarrow> pyfloat \<Rightarrow> sweep_outcome + sweep_params" where
  "sweep_setup hl workload_name step_size =
     (case workloads hl workload_name of
        None \<Rightarrow> Inl NotStarted
      | Some job \<Rightarrow>
          (let rail = dict_get (target_rail job) ''VCCINT''
           in case find_nominal hl job rail of
                Inl out \<Rightarrow> Inl out
              | Inr nominal \<Rightarrow>
                  (case find_min hl rail of
                     None \<Rightarrow> Inl SetupError
                   | Some lowest \<Rightarrow>
                       Inr \<lparr>nominal_v = nominal, min_v = lowest,
                            step_size_v = step_size\<rparr>)))"

text \<open>
  \<^verbatim>\<open>def run_workload_sweep(self, workload_name, steps=25, step_size_v=0.01)\<close>: the
  statements before the \<^verbatim>\<open>try\<close>, then the \<^verbatim>\<open>try\<close> statement. The parameter
  \<^verbatim>\<open>steps\<close> is not used by the function.
\<close>

definition run_workload_sweep ::
  "(nat \<Rightarrow> step_event) \<Rightarrow> hal \<Rightarrow> string \<Rightarrow> pyfloat \<Rightarrow> sweep_run" where
  "run_workload_sweep env hl workload_name step_size =
     (case sweep_setup hl workload_name step_size of
        Inl out \<Rightarrow> not_run out
      | Inr p \<Rightarrow> sweep_and_reset env p)"

text \<open>
  The voltage of the iteration with step number \<open>k\<close> in a sweep that gets that far:
  the nominal voltage, lowered \<open>k\<close> times by the step policy.
\<close>

fun voltage_at :: "sweep_params \<Rightarrow> nat \<Rightarrow> pyfloat" where
  "voltage_at p 0 = nominal_v p"
| "voltage_at p (Suc k) = next_v p (voltage_at p k)"

section \<open>Example configurations\<close>

text \<open>
  Concrete inputs at which the results below are evaluated: a PMBus rail in the
  fixed-scale voltage mode, with limits 0.55 V to 0.90 V and nominal voltage 0.85 V, on an
  open bus; hardware on which every write succeeds; a board with this one rail and two
  workloads, the second with a nominal voltage of its own, 0.56 V.
\<close>

definition vccint_format :: format_conf where
  "vccint_format =
     \<lparr>voltage_mode = Some ''linear16_fixed'', scale_factor = Some 1000,
      current_mode = Some ''linear11'', current_scale_factor = None,
      unit_div = None, base_v = None, step_v = None\<rparr>"

definition vccint_conf :: rail_conf where
  "vccint_conf =
     \<lparr>driver_type = Some ''pmbus'', read_only = Some False,
      limits = Some \<lparr>lim_min = Some (55 / 100), lim_max = Some (9 / 10),
                      lim_nominal = Some (85 / 100)\<rparr>,
      address = Val 19, cmd_read_voltage = Val 139, cmd_read_current = Val 140,
      cmd_set_voltage = Val 33, cmd_voltage_reg = Missing, cmd_update_reg = Missing,
      cmd_update_value = Missing, format = Some vccint_format, files = None\<rparr>"

definition controller_of :: "rail_conf \<Rightarrow> controller" where
  "controller_of cf =
     \<lparr>conf = cf, ctype = init_type cf, bus = Some 4, path_root = None,
      path_microvolts = None\<rparr>"

definition resnet_job :: workload_job where
  "resnet_job = \<lparr>target_rail = None, nominal_voltage = None\<rparr>"

definition short_job :: workload_job where
  "short_job = \<lparr>target_rail = Some ''VCCINT'', nominal_voltage = Some (56 / 100)\<rparr>"

definition board_of :: "controller \<Rightarrow> hal" where
  "board_of c =
     \<lparr>rails = [''VCCINT'' \<mapsto> c],
      workloads = [''ResNet18'' \<mapsto> resnet_job, ''Short'' \<mapsto> short_job]\<rparr>"

definition demo_board :: hal where
  "demo_board = board_of (controller_of vccint_conf)"

definition good_hw :: hw where
  "good_hw =
     \<lparr>read_word_data = (\<lambda>b a r. Some 0), read_float = (\<lambda>path. None),
      write_fails = (\<lambda>w. False)\<rparr>"

text \<open>
  Variants of the rail: flagged read-only; without a limits entry; with a limits entry
  that declares neither bound, only the upper bound, only the lower bound; of driver
  type \<^verbatim>\<open>raw_i2c\<close>; of driver type \<^verbatim>\<open>sysfs_monitor\<close>; with the bus not opened.
\<close>

definition locked_conf :: rail_conf where
  "locked_conf = vccint_conf\<lparr>read_only := Some True\<rparr>"

definition unlimited_conf :: rail_conf where
  "unlimited_conf = vccint_conf\<lparr>limits := None\<rparr>"

definition bare_limits_conf :: rail_conf where
  "bare_limits_conf = vccint_conf\<lparr>limits := Some no_limits\<rparr>"

definition no_min_conf :: rail_conf where
  "no_min_conf =
     vccint_conf\<lparr>limits :=
       Some \<lparr>lim_min = None, lim_max = Some (9 / 10), lim_nominal = None\<rparr>\<rparr>"

definition no_max_conf :: rail_conf where
  "no_max_conf =
     vccint_conf\<lparr>limits :=
       Some \<lparr>lim_min = Some (55 / 100), lim_max = None, lim_nominal = None\<rparr>\<rparr>"

definition vid_conf :: rail_conf where
  "vid_conf = vccint_conf\<lparr>driver_type := Some ''raw_i2c''\<rparr>"

text \<open>
  The PMBus rail with a scale factor of 100; a \<^verbatim>\<open>raw_i2c\<close> rail with the voltage
  register 0x00, base 0.60 V and step 0.005 V, the doubles that Python reads from these
  literals.
\<close>

definition coarse_conf :: rail_conf where
  "coarse_conf = vccint_conf\<lparr>format := Some (vccint_format\<lparr>scale_factor := Some 100\<rparr>)\<rparr>"

definition vid_step_conf :: rail_conf where
  "vid_step_conf =
     vccint_conf\<lparr>driver_type := Some ''raw_i2c'', cmd_voltage_reg := Val 0,
       format := Some (vccint_format\<lparr>base_v := Some (fl (6 / 10)),
                                      step_v := Some (fl (5 / 1000))\<rparr>)\<rparr>"

definition monitor_conf :: rail_conf where
  "monitor_conf = vccint_conf\<lparr>driver_type := Some ''sysfs_monitor''\<rparr>"

definition closed_bus :: controller where
  "closed_bus = (controller_of vccint_conf)\<lparr>bus := None\<rparr>"

text \<open>
  The parameters of the sweeps on this board: of the first workload with a step of
  0.01 V, from 0.85 V down to 0.55 V; of the first workload with a step of 0 V, which
  never lowers the voltage; of the second workload, from 0.56 V down to 0.55 V.
\<close>

definition demo_params :: sweep_params where
  "demo_params = \<lparr>nominal_v = 85 / 100, min_v = 55 / 100, step_size_v = 1 / 100\<rparr>"


definition short_params :: sweep_params where
  "short_params = \<lparr>nominal_v = 56 / 100, min_v = 55 / 100, step_size_v = 1 / 100\<rparr>"

text \<open>
  Workloads: one that always exits with code 0 and prints no accuracy; one that always
  crashes with exit code 1; one that succeeds with accuracy 0.923 in step 0 and crashes
  in step 1, the voltage write failing in step 2; one that succeeds in step 0 and is
  interrupted by the user while it runs in step 1; a rail whose voltage write fails.
\<close>

definition always_ok :: "nat \<Rightarrow> step_event" where
  "always_ok n = Exited 0 None 1"

definition crash_first :: "nat \<Rightarrow> step_event" where
  "crash_first n = Exited 1 None 2"

definition crash_second :: "nat \<Rightarrow> step_event" where
  "crash_second n =
     (if n = 0 then Exited 0 (Some (923 / 1000)) 2
      else if n = 1 then Exited 1 None 3
      else SetFails)"

definition interrupt_second :: "nat \<Rightarrow> step_event" where
  "interrupt_second n =
     (if n = 0 then Exited 0 (Some (923 / 1000)) 2 else RunInterrupt None)"

definition write_fails_first :: "nat \<Rightarrow> step_event" where
  "write_fails_first n = SetFails"

section \<open>Definitions for the statements\<close>

text \<open>
  \<^verbatim>\<open>encode_scaled\<close> as the specification words it, \<^verbatim>\<open>round(value \<times> scale)\<close>; the
  source has no function of this name and computes the register value inline.
\<close>

definition spec_encode_scaled :: "pyfloat \<Rightarrow> pyfloat \<Rightarrow> int" where
  "spec_encode_scaled v scale = py_round (v * scale)"

text \<open>
  The loop invariant: the voltages set so far are those of the steps 0 to
  \<open>step_count - 1\<close>, and the current voltage is that of the next step.
\<close>

definition on_track :: "sweep_params \<Rightarrow> sweep_state \<Rightarrow> bool" where
  "on_track p s \<longleftrightarrow>
     set_calls s = map (voltage_at p) [0..<step_count s]
     \<and> current_v s = voltage_at p (step_count s)"

section \<open>The codec\<close>

lemma and_31_take_bit: "(x :: int) AND 31 = take_bit 5 x"
  by (simp add: take_bit_eq_mask mask_eq_exp_minus_1)

lemma and_2047_take_bit: "(x :: int) AND 2047 = take_bit 11 x"
  by (simp add: take_bit_eq_mask mask_eq_exp_minus_1)

lemma pack_exponent_field: "drop_bit 11 (linear11_pack e m) AND 31 = e mod 32"
proof -
  have "take_bit 5 (drop_bit 11 (push_bit 11 (take_bit 5 e) OR take_bit 11 m)) = take_bit 5 e"
    by (rule bit_eqI) (auto simp: bit_simps)
  then show ?thesis
    unfolding linear11_pack_def and_31_take_bit and_2047_take_bit
    by (simp add: take_bit_eq_mod)
qed

lemma pack_mantissa_field: "linear11_pack e m AND 2047 = m mod 2048"
proof -
  have "take_bit 11 (push_bit 11 (take_bit 5 e) OR take_bit 11 m) = take_bit 11 m"
    by (rule bit_eqI) (auto simp: bit_simps)
  then show ?thesis
    unfolding linear11_pack_def and_31_take_bit and_2047_take_bit
    by (simp add: take_bit_eq_mod)
qed

lemma pack_is_16_bit: "take_bit 16 (linear11_pack e m) = linear11_pack e m"
  unfolding linear11_pack_def and_31_take_bit and_2047_take_bit
  by (rule bit_eqI) (auto simp: bit_simps)

text \<open>Reading an \<open>n\<close>-bit field as two's complement gives back a value in range.\<close>

lemma twos_complement_field:
  fixes x :: int
  assumes "n = 2 * half" and "- half \<le> x" and "x < half"
  shows "(if x mod n > half - 1 then x mod n - n else x mod n) = x"
proof (cases "x < 0")
  case True
  have "(x + n) mod n = x + n"
    using assms True by (intro mod_pos_pos_trivial) linarith+
  then have "x mod n = x + n"
    by simp
  then show ?thesis
    using assms True by simp
next
  case False
  then have "x mod n = x"
    using assms by (intro mod_pos_pos_trivial) linarith+
  then show ?thesis
    using assms by simp
qed

text \<open>
  Claim C9. For every exponent \<open>e\<close> in [-16, 15] and mantissa \<open>m\<close> in [-1024, 1023],
  \<open>decode_linear11\<close> applied to the 16-bit linear11 packing of \<open>(e, m)\<close> is exactly
  \<open>m \<times> 2 ^ e\<close>; the packing is a 16-bit word (between 0 and 65535).
\<close>

theorem decode_linear11_inverts_packing:
  assumes "- 16 \<le> e" and "e \<le> 15" and "- 1024 \<le> m" and "m \<le> 1023"
  shows "decode_linear11 (linear11_pack e m) = of_int m * (2 powi e)
    \<and> 0 \<le> linear11_pack e m \<and> linear11_pack e m < 65536"
proof -
  have e: "(if e mod 32 > 15 then e mod 32 - 32 else e mod 32) = e"
    using twos_complement_field [of 32 16 e] assms(1,2) by simp
  have m: "(if m mod 2048 > 1023 then m mod 2048 - 2048 else m mod 2048) = m"
    using twos_complement_field [of 2048 1024 m] assms(3,4) by simp
  have "decode_linear11 (linear11_pack e m) = of_int m * (2 powi e)"
    unfolding decode_linear11_def Let_def pack_exponent_field pack_mantissa_field e m ..
  moreover have "0 \<le> take_bit 16 (linear11_pack e m)"
    by simp
  moreover have "take_bit 16 (linear11_pack e m) < 2 ^ 16"
    by (rule take_bit_int_less_exp)
  ultimately show ?thesis
    by (simp add: pack_is_16_bit)
qed

theorem decode_linear11_inverts_packing_witness:
  "decode_linear11 (linear11_pack (- 3) (- 5)) = - 5 / 8 \<and> linear11_pack (- 3) (- 5) = 61435"
proof -
  have "decode_linear11 (linear11_pack (- 3) (- 5)) = of_int (- 5) * (2 powi (- 3))"
    using decode_linear11_inverts_packing [of "- 3" "- 5"] by simp
  moreover have "linear11_pack (- 3) (- 5) = 61435"
    by (simp add: linear11_pack_def)
  ultimately show ?thesis
    by (simp add: power_int_minus)
qed

section \<open>The bounds check\<close>

lemma within_limits_lower:
  "limits cf = Some lm \<Longrightarrow> lim_min lm = Some lo \<Longrightarrow> volts < lo \<Longrightarrow> \<not> within_limits cf volts"
  by (simp add: within_limits_def dict_get_def)

lemma within_limits_upper:
  "limits cf = Some lm \<Longrightarrow> lim_max lm = Some hi \<Longrightarrow> hi < volts \<Longrightarrow> \<not> within_limits cf volts"
  by (simp add: within_limits_def dict_get_def)

lemma set_voltage_refused:
  "rails hl rail_name = Some c \<Longrightarrow> \<not> within_limits (conf c) volts \<Longrightarrow>
   set_voltage h hl rail_name volts = (False, [])"
  by (simp add: set_voltage_def)

lemma set_voltage_three_refused:
  "rails hl rail_name = Some c \<Longrightarrow> \<not> within_limits (conf c) volts \<Longrightarrow>
   set_voltage_three h hl rail_name volts = (False, [])"
  by (simp add: set_voltage_three_def)

lemma board_of_rail: "rails (board_of c) ''VCCINT'' = Some c"
  by (simp add: board_of_def)

text \<open>
  Claim C1. For every rail and every requested voltage below the minimum or above the
  maximum of the rail's declared limits, \<open>set_voltage\<close> returns failure and issues no
  write: the list of writes is empty, so nothing reaches the bus or the filesystem
  before or after the bounds check. This holds for the function of Iteration Four and
  for the one of Iteration Three.
\<close>

theorem set_voltage_out_of_bounds:
  assumes "rails hl rail_name = Some c"
    and "limits (conf c) = Some lm"
    and "lim_min lm = Some lo" and "lim_max lm = Some hi"
    and "volts < lo \<or> hi < volts"
  shows "set_voltage h hl rail_name volts = (False, [])
    \<and> set_voltage_three h hl rail_name volts = (False, [])"
proof -
  have "\<not> within_limits (conf c) volts"
    using assms(2-5) within_limits_lower within_limits_upper by blast
  then show ?thesis
    using assms(1) by (simp add: set_voltage_refused set_voltage_three_refused)
qed

theorem set_voltage_out_of_bounds_witness:
  "set_voltage good_hw (board_of (controller_of vccint_conf)) ''VCCINT'' 1 = (False, [])
   \<and> set_voltage_three good_hw (board_of (controller_of vccint_conf)) ''VCCINT'' 1 = (False, [])"
proof -
  let ?lm = "\<lparr>lim_min = Some (55 / 100), lim_max = Some (9 / 10),
    lim_nominal = Some (85 / 100)\<rparr>"
  have b: "limits (conf (controller_of vccint_conf)) = Some ?lm"
    by (simp add: controller_of_def vccint_conf_def)
  have c: "lim_min ?lm = Some (55 / 100)" "lim_max ?lm = Some (9 / 10)"
    by simp_all
  have d: "(1 :: rat) < 55 / 100 \<or> 9 / 10 < (1 :: rat)"
    by simp
  show ?thesis
    by (rule set_voltage_out_of_bounds [OF board_of_rail b c d])
qed

text \<open>
  Claim C10 as stated fails for a rail that omits only one bound: the rail of
  \<open>no_min_conf\<close> declares a maximum of 0.9 V and no minimum, and the request of 50 V,
  which lies in [0.0, 99.0], does not pass the check; \<open>set_voltage\<close> returns failure.
\<close>

theorem default_limits_counterexample:
  "limits no_min_conf = Some \<lparr>lim_min = None, lim_max = Some (9 / 10), lim_nominal = None\<rparr>
   \<and> (0 :: rat) \<le> 50 \<and> (50 :: rat) \<le> 99
   \<and> \<not> within_limits no_min_conf 50
   \<and> set_voltage good_hw (board_of (controller_of no_min_conf)) ''VCCINT'' 50 = (False, [])"
  by (simp add: no_min_conf_def within_limits_def dict_get_def set_voltage_def board_of_def
      controller_of_def)

text \<open>
  Claim C10, amended. When a rail's configuration declares no limits entry, or a limits
  entry with neither bound, the bounds check of \<open>set_voltage\<close> uses the default envelope
  of 0.0 V to 99.0 V: exactly the requests in [0.0, 99.0] pass. When the entry omits one
  bound only, the default of that bound (0.0 for the minimum, 99.0 for the maximum) is
  used with the declared other bound.
\<close>

theorem default_limits:
  "(limits cf = None \<longrightarrow> (within_limits cf v \<longleftrightarrow> 0 \<le> v \<and> v \<le> 99))
   \<and> (limits cf = Some lm \<and> lim_min lm = None \<and> lim_max lm = None \<longrightarrow>
        (within_limits cf v \<longleftrightarrow> 0 \<le> v \<and> v \<le> 99))
   \<and> (limits cf = Some lm \<and> lim_min lm = None \<and> lim_max lm = Some hi \<longrightarrow>
        (within_limits cf v \<longleftrightarrow> 0 \<le> v \<and> v \<le> hi))
   \<and> (limits cf = Some lm \<and> lim_min lm = Some lo \<and> lim_max lm = None \<longrightarrow>
        (within_limits cf v \<longleftrightarrow> lo \<le> v \<and> v \<le> 99))"
  by (simp add: within_limits_def dict_get_def no_limits_def)

theorem default_limits_witness:
  "within_limits unlimited_conf 50 \<and> \<not> within_limits unlimited_conf 100
   \<and> within_limits bare_limits_conf 99
   \<and> within_limits no_min_conf (1 / 10) \<and> \<not> within_limits no_min_conf 50
   \<and> within_limits no_max_conf 50 \<and> \<not> within_limits no_max_conf (1 / 10)"
proof -
  have a: "limits unlimited_conf = None"
    by (simp add: unlimited_conf_def)
  have b: "limits bare_limits_conf = Some no_limits \<and> lim_min no_limits = None
      \<and> lim_max no_limits = None"
    by (simp add: bare_limits_conf_def no_limits_def)
  let ?lo = "\<lparr>lim_min = None, lim_max = Some (9 / 10), lim_nominal = None\<rparr>"
  let ?hi = "\<lparr>lim_min = Some (55 / 100), lim_max = None, lim_nominal = None\<rparr>"
  have c: "limits no_min_conf = Some ?lo \<and> lim_min ?lo = None \<and> lim_max ?lo = Some (9 / 10)"
    by (simp add: no_min_conf_def)
  have d: "limits no_max_conf = Some ?hi \<and> lim_min ?hi = Some (55 / 100) \<and> lim_max ?hi = None"
    by (simp add: no_max_conf_def)
  show ?thesis
    using default_limits [where cf = unlimited_conf and v = 50]
      default_limits [where cf = unlimited_conf and v = 100] a
      default_limits [where cf = bare_limits_conf and lm = no_limits and v = 99] b
      default_limits [where cf = no_min_conf and lm = ?lo and v = "1 / 10" and hi = "9 / 10"]
      default_limits [where cf = no_min_conf and lm = ?lo and v = 50 and hi = "9 / 10"] c
      default_limits [where cf = no_max_conf and lm = ?hi and v = 50 and lo = "55 / 100"]
      default_limits [where cf = no_max_conf and lm = ?hi and v = "1 / 10" and lo = "55 / 100"] d
    by simp
qed

section \<open>Rails that are not written\<close>

text \<open>
  Claim C6 as stated fails in Iteration Four, whose \<open>set_voltage\<close> does not read the
  read-only flag: on a PMBus rail flagged read-only, the in-bounds request of 0.85 V is
  written to the bus and reported as a success.
\<close>

theorem read_only_counterexample:
  "read_only (conf (controller_of locked_conf)) = Some True
   \<and> set_voltage good_hw (board_of (controller_of locked_conf)) ''VCCINT'' (85 / 100)
       = (True, [WriteWord 4 19 33 850])"
  by code_simp

text \<open>
  Claim C6, amended. In Iteration Three, \<open>set_voltage\<close> returns failure and attempts no
  I/O for every rail flagged read-only, and for every rail without the flag, which
  defaults to read-only; Iteration Four does not consult the flag. In both iterations,
  every request on a rail of a driver type other than \<^verbatim>\<open>pmbus\<close>, \<^verbatim>\<open>raw_i2c\<close> and
  \<^verbatim>\<open>sysfs_regulator\<close> returns failure and attempts no I/O.
\<close>

theorem no_write_path:
  "(rails hl rail_name = Some c \<and> dict_get (read_only (conf c)) True \<longrightarrow>
      set_voltage_three h hl rail_name volts = (False, []))
   \<and> (rails hl rail_name = Some c \<and> ctype c \<noteq> ''pmbus'' \<and> ctype c \<noteq> ''raw_i2c''
        \<and> ctype c \<noteq> ''sysfs_regulator'' \<longrightarrow>
      set_voltage h hl rail_name volts = (False, [])
      \<and> set_voltage_three h hl rail_name volts = (False, []))"
  by (auto simp: set_voltage_def set_voltage_three_def split: option.splits)

theorem no_write_path_witness:
  "set_voltage_three good_hw (board_of (controller_of locked_conf)) ''VCCINT'' (85 / 100)
     = (False, [])
   \<and> set_voltage good_hw (board_of (controller_of monitor_conf)) ''VCCINT'' (85 / 100)
     = (False, [])
   \<and> set_voltage_three good_hw (board_of (controller_of monitor_conf)) ''VCCINT'' (85 / 100)
     = (False, [])"
proof -
  have a: "dict_get (read_only (conf (controller_of locked_conf))) True"
    by (simp add: controller_of_def locked_conf_def dict_get_def)
  have b: "ctype (controller_of monitor_conf) \<noteq> ''pmbus''
      \<and> ctype (controller_of monitor_conf) \<noteq> ''raw_i2c''
      \<and> ctype (controller_of monitor_conf) \<noteq> ''sysfs_regulator''"
    by (simp add: controller_of_def monitor_conf_def init_type_def dict_get_def)
  show ?thesis
    using no_write_path [of "board_of (controller_of locked_conf)" "''VCCINT''"
        "controller_of locked_conf" good_hw "85 / 100"]
      no_write_path [of "board_of (controller_of monitor_conf)" "''VCCINT''"
        "controller_of monitor_conf" good_hw "85 / 100"]
      a b board_of_rail
    by simp
qed

section \<open>Double arithmetic\<close>

text \<open>
  \<open>ilog2\<close> is the binary exponent: \<open>2 ^ ilog2 x \<le> x < 2 ^ (ilog2 x + 1)\<close>. So
  \<open>fl x\<close> is an integer of 53 bits times a power of two, at most half a unit in the
  last place away from \<open>x\<close>, and \<open>dbl_round\<close> gives \<open>None\<close> exactly when the
  rounded result is \<open>2 ^ 1024\<close> or more in magnitude.
\<close>

lemma bitlen_powi_bounds:
  fixes a :: int
  assumes "0 < a"
  shows "2 powi (bitlen a - 1) \<le> (of_int a :: rat)" and "(of_int a :: rat) < 2 powi (bitlen a)"
proof -
  have b: "1 \<le> bitlen a"
    using assms by (simp add: bitlen_alt_def)
  have "(2 :: int) ^ nat (bitlen a - 1) \<le> a" and "a < 2 ^ nat (bitlen a)"
    using bitlen_bounds [OF assms] by simp_all
  then have "(of_int (2 ^ nat (bitlen a - 1)) :: rat) \<le> of_int a"
    and "(of_int a :: rat) < of_int (2 ^ nat (bitlen a))"
    by (simp_all only: of_int_le_iff of_int_less_iff)
  then show "2 powi (bitlen a - 1) \<le> (of_int a :: rat)" and "(of_int a :: rat) < 2 powi (bitlen a)"
    using b by (simp_all add: power_int_def)
qed

lemma ilog2_bounds:
  assumes "0 < x"
  shows "2 powi (ilog2 x) \<le> x \<and> x < 2 powi (ilog2 x + 1)"
proof -
  obtain a b where q: "quotient_of x = (a, b)"
    by (cases "quotient_of x")
  then have b: "0 < b" and x: "x = of_int a / of_int b"
    using quotient_of_denom_pos quotient_of_div by blast+
  have a: "0 < a"
    using assms b x by (simp add: zero_less_divide_iff)
  define k where "k = bitlen a - bitlen b"
  have bb: "(0 :: rat) < of_int b"
    using b by simp
  have up: "x < 2 powi (k + 1)"
  proof -
    have "of_int a < (2 :: rat) powi (bitlen a)" and "(2 :: rat) powi (bitlen b - 1) \<le> of_int b"
      using bitlen_powi_bounds a b by blast+
    then have "x < 2 powi (bitlen a) / 2 powi (bitlen b - 1)"
      unfolding x
      using a frac_less [where x = "of_int a :: rat" and y = "2 powi (bitlen a)"
          and w = "2 powi (bitlen b - 1)" and z = "of_int b"]
      by simp
    also have "\<dots> = 2 powi (bitlen a - (bitlen b - 1))"
      by (rule power_int_diff [symmetric]) simp
    also have "bitlen a - (bitlen b - 1) = k + 1"
      by (simp add: k_def)
    finally show ?thesis .
  qed
  have low: "2 powi (k - 1) \<le> x"
  proof -
    have "(2 :: rat) powi (bitlen a - 1) \<le> of_int a" and "of_int b < (2 :: rat) powi (bitlen b)"
      using bitlen_powi_bounds a b by blast+
    then have "2 powi (bitlen a - 1) / 2 powi (bitlen b) \<le> x"
      unfolding x
      using a bb frac_le [where y = "of_int a :: rat" and x = "2 powi (bitlen a - 1)" and w = "of_int b"
          and z = "2 powi (bitlen b)"]
      by (simp add: less_imp_le)
    moreover have "2 powi (bitlen a - 1) / 2 powi (bitlen b) = (2 :: rat) powi (bitlen a - 1 - bitlen b)"
      by (rule power_int_diff [symmetric]) simp
    moreover have "bitlen a - 1 - bitlen b = k - 1"
      by (simp add: k_def)
    ultimately show ?thesis by simp
  qed
  show ?thesis
  proof (cases "2 powi k \<le> x")
    case True
    then have "ilog2 x = k"
      by (simp add: ilog2_def q k_def)
    with True up show ?thesis by simp
  next
    case False
    then have "ilog2 x = k - 1"
      by (simp add: ilog2_def q k_def)
    with False low show ?thesis by simp
  qed
qed

lemma dbl_round_None:
  "dbl_round x = None \<longleftrightarrow> 2 ^ 1024 \<le> \<bar>fl x\<bar>"
proof (cases "fl x = 0")
  case True
  then show ?thesis by (simp add: dbl_round_def)
next
  case False
  then have pos: "0 < \<bar>fl x\<bar>" by simp
  note b = ilog2_bounds [OF pos]
  show ?thesis
  proof
    assume "dbl_round x = None"
    then have "1024 \<le> ilog2 \<bar>fl x\<bar>"
      by (simp add: dbl_round_def Let_def split: if_splits)
    then have "(2 :: rat) powi 1024 \<le> 2 powi (ilog2 \<bar>fl x\<bar>)"
      by (intro power_int_increasing) simp_all
    with b show "2 ^ 1024 \<le> \<bar>fl x\<bar>"
      by simp
  next
    assume h: "2 ^ 1024 \<le> \<bar>fl x\<bar>"
    have "1024 \<le> ilog2 \<bar>fl x\<bar>"
    proof (rule ccontr)
      assume "\<not> 1024 \<le> ilog2 \<bar>fl x\<bar>"
      then have "ilog2 \<bar>fl x\<bar> + 1 \<le> 1024" by simp
      then have "(2 :: rat) powi (ilog2 \<bar>fl x\<bar> + 1) \<le> 2 powi 1024"
        by (intro power_int_increasing) simp_all
      with b h show False by simp
    qed
    with False show "dbl_round x = None"
      by (simp add: dbl_round_def)
  qed
qed

lemma py_round_floor: "\<lfloor>y\<rfloor> \<le> py_round y \<and> py_round y \<le> \<lfloor>y\<rfloor> + 1"
  by (simp add: py_round_def Let_def)

lemma py_round_near: "\<bar>of_int (py_round y) - y\<bar> \<le> 1 / 2"
proof -
  have "of_int \<lfloor>y\<rfloor> \<le> y" and "y < of_int \<lfloor>y\<rfloor> + 1"
    by linarith+
  then show ?thesis
    by (auto simp: py_round_def Let_def)
qed

lemma py_round_range:
  fixes A :: int
  assumes "0 < A" and "of_int A \<le> \<bar>y\<bar>" and "\<bar>y\<bar> < of_int (2 * A)"
  shows "A \<le> \<bar>py_round y\<bar> \<and> \<bar>py_round y\<bar> \<le> 2 * A"
proof (cases "0 \<le> y")
  case True
  with assms have "of_int A \<le> y" "y < of_int (2 * A)"
    by simp_all
  then have "A \<le> \<lfloor>y\<rfloor>" "\<lfloor>y\<rfloor> < 2 * A"
    by (simp_all only: le_floor_iff floor_less_iff)
  with py_round_floor [of y] assms(1) show ?thesis
    by linarith
next
  case False
  with assms have up: "y \<le> of_int (- A)" and dn: "of_int (- (2 * A)) < y"
    by simp_all
  from dn have f: "- (2 * A) \<le> \<lfloor>y\<rfloor>"
    by (simp only: le_floor_iff)
  have "py_round y \<le> - A"
  proof (cases "y = of_int (- A)")
    case True
    then show ?thesis
      by (simp add: py_round_def)
  next
    case False
    with up have "y < of_int (- A)"
      by simp
    then have "\<lfloor>y\<rfloor> < - A"
      by (simp only: floor_less_iff)
    with py_round_floor [of y] show ?thesis
      by linarith
  qed
  with f py_round_floor [of y] assms(1) show ?thesis
    by linarith
qed

lemma fl_scaled:
  assumes "x \<noteq> 0"
  shows "fl x = of_int (py_round (x / 2 powi (ilog2 \<bar>x\<bar> - 52))) * 2 powi (ilog2 \<bar>x\<bar> - 52)"
  using assms by (simp add: fl_def Let_def)

lemma fl_nearest:
  assumes "x \<noteq> 0"
  shows "\<bar>fl x - x\<bar> \<le> 2 powi (ilog2 \<bar>x\<bar> - 53)"
proof -
  define e where "e = ilog2 \<bar>x\<bar> - 52"
  define y where "y = x / 2 powi e"
  have p: "(0 :: rat) < 2 powi e"
    by simp
  have x: "y * 2 powi e = x"
    by (simp add: y_def)
  have "fl x = of_int (py_round y) * 2 powi e"
    unfolding fl_scaled [OF assms] e_def [symmetric] y_def [symmetric] ..
  then have "fl x - x = (of_int (py_round y) - y) * 2 powi e"
    using x by (simp add: algebra_simps)
  then have "\<bar>fl x - x\<bar> = \<bar>of_int (py_round y) - y\<bar> * 2 powi e"
    by (simp add: abs_mult)
  also have "\<dots> \<le> 1 / 2 * 2 powi e"
    using py_round_near [of y] p by (intro mult_right_mono) simp_all
  also have "\<dots> = 2 powi (e - 1)"
    by (simp add: power_int_diff)
  finally show ?thesis
    by (simp add: e_def)
qed

lemma fl_significand:
  assumes "x \<noteq> 0"
  shows "\<exists>m. fl x = of_int m * 2 powi (ilog2 \<bar>x\<bar> - 52) \<and> 2 ^ 52 \<le> \<bar>m\<bar> \<and> \<bar>m\<bar> \<le> 2 ^ 53"
proof -
  define e where "e = ilog2 \<bar>x\<bar> - 52"
  define y where "y = x / 2 powi e"
  have pos: "0 < \<bar>x\<bar>"
    using assms by simp
  note b = ilog2_bounds [OF pos]
  have "\<bar>y\<bar> = \<bar>x\<bar> / 2 powi e"
    by (simp add: y_def)
  moreover have "2 powi (ilog2 \<bar>x\<bar>) / 2 powi e = (2 :: rat) powi (ilog2 \<bar>x\<bar> - e)"
    by (rule power_int_diff [symmetric]) simp
  moreover have "2 powi (ilog2 \<bar>x\<bar> + 1) / 2 powi e = (2 :: rat) powi (ilog2 \<bar>x\<bar> + 1 - e)"
    by (rule power_int_diff [symmetric]) simp
  moreover have "ilog2 \<bar>x\<bar> - e = 52" "ilog2 \<bar>x\<bar> + 1 - e = 53"
    by (simp_all add: e_def)
  ultimately have lo: "2 ^ 52 \<le> \<bar>y\<bar>" and hi: "\<bar>y\<bar> < 2 ^ 53"
    using b divide_right_mono [of "2 powi (ilog2 \<bar>x\<bar>)" "\<bar>x\<bar>" "2 powi e"]
      divide_strict_right_mono [of "\<bar>x\<bar>" "2 powi (ilog2 \<bar>x\<bar> + 1)" "2 powi e"]
    by simp_all
  have "2 ^ 52 \<le> \<bar>py_round y\<bar> \<and> \<bar>py_round y\<bar> \<le> 2 ^ 53"
    using lo hi py_round_range [of "2 ^ 52" y] by simp
  then show ?thesis
    using fl_scaled [OF assms] by (auto simp: e_def y_def)
qed

text \<open>
  The rounding at known doubles: the double of the literal 0.1; the products
  \<^verbatim>\<open>0.58 * 100\<close>, which is the double below 58, and \<^verbatim>\<open>0.85 * 1000\<close>, which is 850
  although the double of 0.85 lies below 0.85; ties.
\<close>

lemma fl_one_tenth: "fl (1 / 10) = 3602879701896397 / 36028797018963968"
  by code_simp

lemma fl_product_below: "dbl_round (fl (58 / 100) * 100) = Some (8162774324609023 / 140737488355328)"
  by code_simp

lemma fl_product_exact: "fl (85 / 100) < 85 / 100 \<and> dbl_round (fl (85 / 100) * 1000) = Some 850"
  by code_simp

lemma fl_ties_to_even:
  "fl (1 + 2 powi (- 53)) = 1 \<and> fl (1 + 3 * 2 powi (- 53)) = 1 + 2 powi (- 51)"
  by code_simp

section \<open>The PMBus write\<close>

text \<open>
  Claim C5 as stated fails in the fixed-scale mode: the register value is
  \<^verbatim>\<open>int(voltage_v * scale)\<close>, truncated, not rounded. With scale factor 1000 the
  request of 0.8759 V is written as 875, where \<^verbatim>\<open>round(0.8759 \<times> 1000)\<close> is 876.
\<close>

theorem pmbus_encoding_counterexample:
  "set_voltage good_hw (board_of (controller_of vccint_conf)) ''VCCINT'' (fl (8759 / 10000))
     = (True, [WriteWord 4 19 33 875])
   \<and> spec_encode_scaled (fl (8759 / 10000)) 1000 = 876"
  by code_simp

text \<open>
  Claim C5, amended. For every in-bounds voltage \<open>v\<close> requested on a \<^verbatim>\<open>pmbus\<close> rail
  with an open bus handle whose format declares the fixed-scale voltage mode and a scale
  factor, \<open>set_voltage\<close> issues one write, of the word \<^verbatim>\<open>int(v * scale)\<close> to the
  \<^verbatim>\<open>set_voltage\<close> register, and returns success unless that write raises: the word is
  the product of the doubles \<open>v\<close> and \<open>scale\<close>, rounded to a double as the
  multiplication of floats does, then truncated towards zero. When the product overflows
  the doubles, no write is issued and \<open>set_voltage\<close> returns failure.
\<close>

theorem pmbus_fixed_scale_write:
  assumes "rails hl rail_name = Some c" and "ctype c = ''pmbus''" and "bus c = Some b"
    and "within_limits (conf c) volts"
    and "address (conf c) = Val addr" and "cmd_set_voltage (conf c) = Val cmd"
    and "format (conf c) = Some fmt" and "voltage_mode fmt = Some ''linear16_fixed''"
    and "scale_factor fmt = Some scale"
  shows "set_voltage h hl rail_name volts =
      (case dbl_round (volts * scale) of
         Some r \<Rightarrow>
           (\<not> write_fails h (WriteWord b addr cmd (py_int r)),
            [WriteWord b addr cmd (py_int r)])
       | None \<Rightarrow> (False, []))"
  using assms by (simp add: set_voltage_def pmbus_write_def Let_def split: option.splits)

theorem pmbus_fixed_scale_write_witness:
  "set_voltage good_hw (board_of (controller_of vccint_conf)) ''VCCINT'' (fl (85 / 100))
     = (True, [WriteWord 4 19 33 850])
   \<and> set_voltage good_hw (board_of (controller_of coarse_conf)) ''VCCINT'' (fl (58 / 100))
     = (True, [WriteWord 4 19 33 57])"
proof -
  let ?c = "controller_of vccint_conf"
  let ?d = "controller_of coarse_conf"
  let ?f = "vccint_format\<lparr>scale_factor := Some 100\<rparr>"
  have a: "ctype ?c = ''pmbus''" "bus ?c = Some 4" "ctype ?d = ''pmbus''" "bus ?d = Some 4"
    by (simp_all add: controller_of_def vccint_conf_def coarse_conf_def init_type_def
        dict_get_def)
  have b: "within_limits (conf ?c) (fl (85 / 100))" "within_limits (conf ?d) (fl (58 / 100))"
    by code_simp+
  have c: "address (conf ?c) = Val 19" "cmd_set_voltage (conf ?c) = Val 33"
    "format (conf ?c) = Some vccint_format"
    "address (conf ?d) = Val 19" "cmd_set_voltage (conf ?d) = Val 33"
    "format (conf ?d) = Some ?f"
    by (simp_all add: controller_of_def vccint_conf_def coarse_conf_def)
  have d: "voltage_mode vccint_format = Some ''linear16_fixed''"
    "scale_factor vccint_format = Some 1000"
    "voltage_mode ?f = Some ''linear16_fixed''" "scale_factor ?f = Some 100"
    by (simp_all add: vccint_format_def)
  have e: "py_int 850 = 850" "py_int (8162774324609023 / 140737488355328) = 57"
    by code_simp+
  show ?thesis
    unfolding pmbus_fixed_scale_write [OF board_of_rail a(1,2) b(1) c(1-3) d(1,2), of good_hw]
      pmbus_fixed_scale_write [OF board_of_rail a(3,4) b(2) c(4-6) d(3,4), of good_hw]
      fl_product_exact [THEN conjunct2] fl_product_below
    by (simp add: e good_hw_def)
qed

text \<open>
  The word is the floor of the rounded product for the voltages of a rail, which are not
  negative. In every other voltage mode the branch reads the local \<^verbatim>\<open>scale\<close> before
  any assignment to it: the write is not reached and \<open>set_voltage\<close> returns failure.
\<close>

lemma py_int_floor: "0 \<le> x \<Longrightarrow> py_int x = \<lfloor>x\<rfloor>"
  by (simp add: py_int_def)

lemma pmbus_generic_mode_fails:
  assumes "rails hl rail_name = Some c" and "ctype c = ''pmbus''" and "bus c = Some b"
    and "format (conf c) = Some fmt" and "voltage_mode fmt \<noteq> Some ''linear16_fixed''"
  shows "set_voltage h hl rail_name volts = (False, [])"
  using assms by (simp add: set_voltage_def pmbus_write_def split: field.splits)

text \<open>
  The VID code of the \<^verbatim>\<open>raw_i2c\<close> branch at two requests, with base 0.60 V and step
  0.005 V: 0.65 V gives the code 10; 0.6125 V gives the code 3, the quotient of the
  doubles being a little above 2.5.
\<close>

lemma vid_codes:
  "set_voltage good_hw (board_of (controller_of vid_step_conf)) ''VCCINT'' (fl (65 / 100))
     = (True, [WriteByte 4 19 0 10])
   \<and> set_voltage good_hw (board_of (controller_of vid_step_conf)) ''VCCINT'' (fl (6125 / 10000))
     = (True, [WriteByte 4 19 0 3])"
  by code_simp

section \<open>Telemetry of rails without a read path\<close>

text \<open>
  Claim C4 as stated fails: on a rail of driver type \<^verbatim>\<open>raw_i2c\<close>, \<open>read_telemetry\<close>
  returns a sample, the one with voltage, current and power 0.0, not the absent result.
\<close>

theorem raw_i2c_telemetry_counterexample:
  "ctype (controller_of vid_conf) = ''raw_i2c''
   \<and> read_telemetry good_hw (board_of (controller_of vid_conf)) ''VCCINT'' = Some zero_sample
   \<and> Some zero_sample \<noteq> (None :: sample option)"
  by (simp add: vid_conf_def vccint_conf_def read_telemetry_def board_of_def controller_of_def
      init_type_def dict_get_def)

text \<open>
  Claim C4, amended. For every rail of driver type \<^verbatim>\<open>raw_i2c\<close>, and for every rail
  whose runtime handle is absent (bus not opened or path not resolved), \<open>read_telemetry\<close>
  returns the sample with voltage, current and power all 0.0.
\<close>

theorem telemetry_without_read_path:
  assumes "rails hl rail_name = Some c" and "ctype c = ''raw_i2c'' \<or> handle_absent c"
  shows "read_telemetry h hl rail_name = Some zero_sample"
  using assms by (auto simp: read_telemetry_def handle_absent_def split: if_splits)

theorem telemetry_without_read_path_witness:
  "read_telemetry good_hw (board_of (controller_of vid_conf)) ''VCCINT'' = Some zero_sample
   \<and> read_telemetry good_hw (board_of closed_bus) ''VCCINT'' = Some zero_sample"
proof -
  have a: "ctype (controller_of vid_conf) = ''raw_i2c'' \<or> handle_absent (controller_of vid_conf)"
    by (simp add: controller_of_def vid_conf_def init_type_def dict_get_def)
  have b: "ctype closed_bus = ''raw_i2c'' \<or> handle_absent closed_bus"
    by (simp add: closed_bus_def controller_of_def vccint_conf_def init_type_def dict_get_def
        handle_absent_def)
  show ?thesis
    using telemetry_without_read_path [OF board_of_rail a, of good_hw]
      telemetry_without_read_path [OF board_of_rail b, of good_hw]
    by simp
qed

section \<open>One iteration of the step loop\<close>

lemma sweep_step_continues:
  assumes "sweep_step env p s = (None, s')"
  shows "step_count s' = Suc (step_count s)"
    and "current_v s' = next_v p (current_v s)"
    and "set_calls s' = set_calls s @ [current_v s]"
    and "length (summary s') = Suc (length (summary s))"
  using assms
  by (auto simp: sweep_step_def Let_def finish_step_def classify_def set_duration_def
      split: step_event.splits option.splits if_splits)

lemma sweep_step_leaves:
  assumes "sweep_step env p s = (Some e, s')"
  shows "step_count s' = step_count s"
    and "set_calls s' = set_calls s @ [current_v s]"
  using assms
  by (auto simp: sweep_step_def Let_def finish_step_def classify_def set_duration_def
      split: step_event.splits option.splits if_splits)

lemma on_track_start: "on_track p (start_state p)"
  by (simp add: on_track_def start_state_def)

lemma on_track_continues:
  assumes "on_track p s" and "sweep_step env p s = (None, s')"
  shows "on_track p s'"
  using assms sweep_step_continues [OF assms(2)]
  by (simp add: on_track_def)

lemma on_track_leaves:
  assumes "on_track p s" and "sweep_step env p s = (Some e, s')"
  shows "set_calls s' = map (voltage_at p) [0..<Suc (step_count s)]"
  using assms sweep_step_leaves [OF assms(2)]
  by (simp add: on_track_def)


section \<open>The reset after the loop\<close>

text \<open>
  However the loop is left, the voltages it has set are those of the steps 0 to
  \<open>n - 1\<close> for some \<open>n\<close> of at most 501: one call of \<^verbatim>\<open>set_voltage\<close> for each
  iteration that was started.
\<close>

lemma sweep_loop_calls:
  assumes "on_track p s" and "step_count s \<le> 500" and "sweep_loop env p s = (e, s')"
  shows "\<exists>n\<le>501. set_calls s' = map (voltage_at p) [0..<n]"
  using assms
proof (induction env p s rule: sweep_loop.induct)
  case (1 env p s)
  show ?case
  proof (cases "current_v s \<ge> min_v p - 1 / 10000")
    case False
    with "1.prems" have "s' = s"
      by (simp add: sweep_loop.simps [of env p s])
    with "1.prems" show ?thesis
      by (auto simp: on_track_def intro!: exI [of _ "step_count s"])
  next
    case True
    obtain r t where step: "sweep_step env p s = (r, t)"
      by (cases "sweep_step env p s")
    show ?thesis
    proof (cases r)
      case (Some x)
      with True step "1.prems" have "s' = t"
        by (simp add: sweep_loop.simps [of env p s])
      moreover have "set_calls t = map (voltage_at p) [0..<Suc (step_count s)]"
        using on_track_leaves "1.prems"(1) step Some by blast
      ultimately show ?thesis
        using "1.prems"(2) by (intro exI [of _ "Suc (step_count s)"]) simp
    next
      case None
      note cont = sweep_step_continues [OF step [unfolded None]]
      have track: "on_track p t"
        using on_track_continues "1.prems"(1) step None by blast
      show ?thesis
      proof (cases "step_count t > 500")
        case True
        with \<open>current_v s \<ge> min_v p - 1 / 10000\<close> step None "1.prems" have "s' = t"
          by (simp add: sweep_loop.simps [of env p s])
        moreover have "step_count t = 501"
          using True cont(1) "1.prems"(2) by simp
        ultimately show ?thesis
          using track by (intro exI [of _ 501]) (simp add: on_track_def)
      next
        case False
        with True step None "1.prems" have "sweep_loop env p t = (e, s')"
          by (simp add: sweep_loop.simps [of env p s])
        moreover have "step_count t \<le> 500"
          using False by simp
        ultimately show ?thesis
          using "1.IH" [OF True step [symmetric] None False track] by simp
      qed
    qed
  qed
qed

lemma run_workload_sweep_started:
  assumes "sweep_setup hl workload_name step_size = Inr p"
  shows "run_workload_sweep env hl workload_name step_size = sweep_and_reset env p"
  using assms by (simp add: run_workload_sweep_def)

lemma demo_setup: "sweep_setup demo_board ''ResNet18'' (1 / 100) = Inr demo_params"
  by (simp add: sweep_setup_def demo_board_def board_of_def resnet_job_def dict_get_def
      find_nominal_def find_min_def controller_of_def vccint_conf_def demo_params_def)


lemma short_setup: "sweep_setup demo_board ''Short'' (1 / 100) = Inr short_params"
  by (simp add: sweep_setup_def demo_board_def board_of_def short_job_def dict_get_def
      find_nominal_def find_min_def controller_of_def vccint_conf_def short_params_def)

text \<open>
  Claim C2. On every way \<open>e\<close> of leaving the step loop (the end of the loop
  \<open>Exhausted\<close>, the abort on a voltage-write failure \<open>WriteAbort\<close>, the user's
  interruption \<open>Interrupted\<close>, the safety-cap halt \<open>CapHalt\<close>, and also the abort on an
  exception of the workload run and an exception raised in the loop), the calls of
  \<^verbatim>\<open>set_voltage\<close> made by the sweep are those made inside the loop, one for each step
  started, followed by exactly one more call, with the nominal voltage.
\<close>

theorem reset_after_loop:
  assumes "sweep_setup hl workload_name step_size = Inr p"
    and "sweep_loop env p (start_state p) = (e, s)"
  shows "outcome (run_workload_sweep env hl workload_name step_size) = Swept e
    \<and> hal_calls (run_workload_sweep env hl workload_name step_size) =
        set_calls s @ [nominal_v p]
    \<and> (\<exists>n\<le>501. set_calls s = map (voltage_at p) [0..<n])"
proof -
  have "\<exists>n\<le>501. set_calls s = map (voltage_at p) [0..<n]"
    using sweep_loop_calls [OF on_track_start _ assms(2)] by (simp add: start_state_def)
  then show ?thesis
    using assms by (simp add: run_workload_sweep_started sweep_and_reset_def)
qed

lemma loop_result:
  "fst (sweep_loop env p s) = e \<Longrightarrow> sweep_loop env p s = (e, snd (sweep_loop env p s))"
  by (simp add: prod_eq_iff)

lemma short_sweep_exit: "fst (sweep_loop always_ok short_params (start_state short_params)) = Exhausted"
  by code_simp

lemma short_sweep_calls:
  "set_calls (snd (sweep_loop always_ok short_params (start_state short_params))) =
     [560 / 1000, 559 / 1000, 558 / 1000, 557 / 1000, 556 / 1000, 555 / 1000, 554 / 1000,
      553 / 1000, 552 / 1000, 551 / 1000, 550 / 1000]"
  by code_simp

lemma failed_write_exit:
  "fst (sweep_loop write_fails_first demo_params (start_state demo_params)) = WriteAbort"
  by code_simp

lemma failed_write_calls:
  "set_calls (snd (sweep_loop write_fails_first demo_params (start_state demo_params))) = [85 / 100]"
  by code_simp

lemma interrupted_exit:
  "fst (sweep_loop interrupt_second demo_params (start_state demo_params)) = Interrupted"
  by code_simp

lemma interrupted_calls:
  "set_calls (snd (sweep_loop interrupt_second demo_params (start_state demo_params))) =
     [85 / 100, 84 / 100]"
  by code_simp

theorem reset_after_loop_witness:
  "outcome (run_workload_sweep always_ok demo_board ''Short'' (1 / 100)) = Swept Exhausted
   \<and> hal_calls (run_workload_sweep always_ok demo_board ''Short'' (1 / 100)) =
       [560 / 1000, 559 / 1000, 558 / 1000, 557 / 1000, 556 / 1000, 555 / 1000, 554 / 1000,
        553 / 1000, 552 / 1000, 551 / 1000, 550 / 1000, 56 / 100]
   \<and> outcome (run_workload_sweep write_fails_first demo_board ''ResNet18'' (1 / 100)) =
       Swept WriteAbort
   \<and> hal_calls (run_workload_sweep write_fails_first demo_board ''ResNet18'' (1 / 100)) =
       [85 / 100, 85 / 100]
   \<and> outcome (run_workload_sweep interrupt_second demo_board ''ResNet18'' (1 / 100)) =
       Swept Interrupted
   \<and> hal_calls (run_workload_sweep interrupt_second demo_board ''ResNet18'' (1 / 100)) =
       [85 / 100, 84 / 100, 85 / 100]"
proof -
  have n: "nominal_v short_params = 56 / 100" "nominal_v demo_params = 85 / 100"
    by (simp_all add: short_params_def demo_params_def)
  show ?thesis
    using reset_after_loop [OF short_setup loop_result [OF short_sweep_exit]]
      reset_after_loop [OF demo_setup loop_result [OF failed_write_exit]]
      reset_after_loop [OF demo_setup loop_result [OF interrupted_exit]]
    by (simp add: short_sweep_calls failed_write_calls interrupted_calls n)
qed

section \<open>The safety cap\<close>





section \<open>The step policy\<close>

text \<open>
  Claim C8. In a sweep with minimum 0.55 V and coarse step 0.01 V (the nominal voltage,
  0.85 V in the claim, plays no part in the computation), the voltage after a step at
  0.58 V is 0.57 V, and for every step at a voltage at or below the fine threshold
  0.57 V the decrement is the fine step 0.001 V. The voltage that the loop body leaves
  is the one this policy computes. The statement is about the exact arithmetic.
\<close>

theorem step_policy:
  assumes "min_v p = 55 / 100" and "step_size_v p = 1 / 100"
  shows "next_v p (58 / 100) = 57 / 100
    \<and> (\<forall>v\<le>57 / 100. current_step p v = 1 / 1000 \<and> next_v p v = v - 1 / 1000)
    \<and> (\<forall>env s s'. sweep_step env p s = (None, s') \<longrightarrow>
          current_v s' = current_v s - current_step p (current_v s))"
proof -
  have "fine_threshold p = 57 / 100"
    using assms by (simp add: fine_threshold_def)
  then have "next_v p (58 / 100) = 57 / 100"
    and "\<forall>v\<le>57 / 100. current_step p v = 1 / 1000 \<and> next_v p v = v - 1 / 1000"
    using assms by (simp_all add: next_v_def current_step_def fine_step_def)
  moreover have "\<forall>env s s'. sweep_step env p s = (None, s') \<longrightarrow>
          current_v s' = current_v s - current_step p (current_v s)"
    using sweep_step_continues(2) by (simp add: next_v_def)
  ultimately show ?thesis
    by blast
qed

lemma first_demo_step:
  "sweep_step always_ok demo_params (start_state demo_params) =
     (None,
      \<lparr>current_v = 84 / 100, step_count = 1, status = Some ''SUCCESS'', duration = Some 1,
       set_calls = [85 / 100],
       summary = [\<lparr>row_voltage = 85 / 100, row_accuracy = 0, row_status = ''SUCCESS'',
                   row_duration = 1\<rparr>]\<rparr>)"
  by code_simp

theorem step_policy_witness:
  "next_v demo_params (58 / 100) = 57 / 100
   \<and> next_v demo_params (57 / 100) = 569 / 1000
   \<and> next_v demo_params (56 / 100) = 559 / 1000
   \<and> current_step demo_params (85 / 100) = 1 / 100"
proof -
  have a: "min_v demo_params = 55 / 100" "step_size_v demo_params = 1 / 100"
    by (simp_all add: demo_params_def)
  have b: "(57 / 100 :: rat) \<le> 57 / 100" "(56 / 100 :: rat) \<le> 57 / 100"
    by simp_all
  have "current_v (start_state demo_params) - current_step demo_params
      (current_v (start_state demo_params)) = 84 / 100"
    using step_policy [OF a] first_demo_step by fastforce
  then have "current_step demo_params (85 / 100) = 1 / 100"
    by (simp add: start_state_def demo_params_def)
  then show ?thesis
    using step_policy [OF a] b by simp
qed

section \<open>The status of a crashed step\<close>

text \<open>
  Claim C3 at two inputs. When the workload of the first step exits with code 1, the
  loop is left by UnboundLocalError (exit \<open>Unbound\<close>): no summary row is written and the
  sweep does not go on to a lower voltage. When the workload succeeds in step 0 and
  exits with code 1 in step 1, the row of step 1 carries the status of step 0,
  \<^verbatim>\<open>SUCCESS\<close>, not a crash descriptor; the loop goes on to step 2.
\<close>

theorem crash_status:
  "run_workload_sweep crash_first demo_board ''ResNet18'' (1 / 100) =
     \<lparr>outcome = Swept Unbound, hal_calls = [85 / 100, 85 / 100], rows = []\<rparr>
   \<and> run_workload_sweep crash_second demo_board ''ResNet18'' (1 / 100) =
     \<lparr>outcome = Swept WriteAbort,
      hal_calls = [85 / 100, 84 / 100, 83 / 100, 85 / 100],
      rows = [\<lparr>row_voltage = 85 / 100, row_accuracy = 923 / 1000,
                row_status = ''SUCCESS'', row_duration = 2\<rparr>,
              \<lparr>row_voltage = 84 / 100, row_accuracy = 0,
                row_status = ''SUCCESS'', row_duration = 3\<rparr>]\<rparr>"
  by code_simp

text \<open>
  In general the classification leaves \<^verbatim>\<open>status\<close> as it is for an exit code other
  than 0 and -6, so a crashed step is recorded with the status of the last successful
  step, and raises when there was none.
\<close>

lemma crash_keeps_status:
  assumes "rc \<noteq> 0" and "rc \<noteq> - 6"
  shows "classify rc s = s"
  using assms by (simp add: classify_def)

lemma crash_without_status_raises:
  assumes "env (step_count s) = Exited rc acc dur" and "rc \<noteq> 0" and "rc \<noteq> - 6"
    and "status s = None"
  shows "fst (sweep_step env p s) = Some Unbound"
  using assms by (simp add: sweep_step_def Let_def classify_def finish_step_def)

end
